theory Spec2Isabelle
  imports Complex_Main
begin

section \<open>Token balancer (shared/utils/token\_balancer.py)\<close>

text \<open>
  Python's unbounded integers are \<open>int\<close>. The weight factors are Python floats; they are
  modelled as exact rationals (\<open>rat\<close>), so rounding of the binary floating-point
  operations is not part of this development. \<open>py_int\<close> is Python's \<open>int(x)\<close> on a
  number: truncation towards zero.
\<close>

definition py_int :: "rat \<Rightarrow> int" where
  "py_int x = (if 0 \<le> x then \<lfloor>x\<rfloor> else \<lceil>x\<rceil>)"

record NodeWeight =
  historical_usage :: rat
  queue_depth :: int
  complexity :: rat
  priority :: int

definition default_NodeWeight :: NodeWeight where
  "default_NodeWeight =
     \<lparr>historical_usage = 1, queue_depth = 0, complexity = 1, priority = 5\<rparr>"

definition total_weight :: "NodeWeight \<Rightarrow> rat" where
  "total_weight w =
     (let base = historical_usage w * complexity w;
          queue_factor = 1 + (of_int (queue_depth w) * (1 / 10));
          priority_factor = of_int (priority w) / 5
      in base * queue_factor * priority_factor)"

record AllocationRecord =
  rec_node_id :: string
  allocated :: int
  consumed :: int
  timestamp :: rat

definition utilization :: "AllocationRecord \<Rightarrow> rat" where
  "utilization r =
     (if allocated r = 0 then 0 else of_int (consumed r) / of_int (allocated r))"

text \<open>
  A tree node as the balancer sees it (\<open>BSTNode\<close> in shared/types/node.py): its id, the
  \<open>is_leaf\<close> property (the level is \<open>LEAF\<close>), its token account and the two child
  pointers, each of which may be \<open>None\<close>.
\<close>

datatype bst =
  Nd (node_id: string) (is_leaf: bool) (token_allocation: int) (tokens_consumed: int)
     (left: "bst option") (right: "bst option")

record TokenBalancer =
  total_budget :: int
  leaf_allocations :: "string \<rightharpoonup> AllocationRecord"
  node_weights :: "string \<rightharpoonup> NodeWeight"
  weight_cache :: "string \<rightharpoonup> rat"
  cache_valid :: bool

definition new_TokenBalancer :: "int \<Rightarrow> TokenBalancer" where
  "new_TokenBalancer budget =
     \<lparr>total_budget = budget, leaf_allocations = Map.empty, node_weights = Map.empty,
      weight_cache = Map.empty, cache_valid = False\<rparr>"

definition get_allocation :: "string \<Rightarrow> TokenBalancer \<Rightarrow> int" where
  "get_allocation nid tb =
     (case leaf_allocations tb nid of Some r \<Rightarrow> allocated r | None \<Rightarrow> 0)"

definition invalidate_cache :: "TokenBalancer \<Rightarrow> TokenBalancer" where
  "invalidate_cache tb = tb\<lparr>cache_valid := False, weight_cache := Map.empty\<rparr>"

definition get_node_weight :: "string \<Rightarrow> TokenBalancer \<Rightarrow> NodeWeight \<times> TokenBalancer" where
  "get_node_weight nid tb =
     (case node_weights tb nid of
        None \<Rightarrow> (default_NodeWeight,
                 tb\<lparr>node_weights := (node_weights tb)(nid \<mapsto> default_NodeWeight)\<rparr>)
      | Some w \<Rightarrow> (w, tb))"

fun calculate_weight :: "bst option \<Rightarrow> TokenBalancer \<Rightarrow> rat \<times> TokenBalancer" where
  "calculate_weight None tb = (0, tb)"
| "calculate_weight (Some (Nd nid leaf a c l r)) tb =
     (if cache_valid tb \<and> weight_cache tb nid \<noteq> None then (the (weight_cache tb nid), tb)
      else
        let (weight, tb') =
              (if leaf then
                 (let (w, tb1) = get_node_weight nid tb in (total_weight w, tb1))
               else
                 (let (left_w, tb1) = calculate_weight l tb;
                      (right_w, tb2) = calculate_weight r tb1
                  in (left_w + right_w, tb2)))
        in (weight, tb'\<lparr>weight_cache := (weight_cache tb')(nid \<mapsto> weight)\<rparr>))"

text \<open>
  Lines 114--120 of \<open>_distribute\<close>: the budget of an internal node is cut into the left
  and the right share from the two subtree weights.
\<close>

definition split_budget :: "int \<Rightarrow> rat \<Rightarrow> rat \<Rightarrow> int \<times> int" where
  "split_budget available_budget left_weight right_weight =
     (let total = left_weight + right_weight;
          total = (if total = 0 then 1 else total);
          left_budget = py_int (of_int available_budget * (left_weight / total));
          right_budget = available_budget - left_budget
      in (left_budget, right_budget))"

text \<open>
  \<open>_distribute\<close> writes the allocation record of every leaf it reaches and calls
  \<open>set_allocation\<close> on the leaf object, so the model returns the updated node together
  with the updated balancer. The integer the Python function returns is used by no caller
  and is left out.
\<close>

fun distribute :: "bst option \<Rightarrow> int \<Rightarrow> TokenBalancer \<Rightarrow> bst option \<times> TokenBalancer" where
  "distribute None available_budget tb = (None, tb)"
| "distribute (Some (Nd nid leaf a c l r)) available_budget tb =
     (if leaf then
        (Some (Nd nid leaf available_budget c l r),
         tb\<lparr>leaf_allocations := (leaf_allocations tb)(nid \<mapsto>
              \<lparr>rec_node_id = nid, allocated = available_budget, consumed = 0,
               timestamp = 0\<rparr>)\<rparr>)
      else
        let (left_weight, tb1) = calculate_weight l tb;
            (right_weight, tb2) = calculate_weight r tb1;
            (left_budget, right_budget) = split_budget available_budget left_weight right_weight;
            (l', tb3) = distribute l left_budget tb2;
            (r', tb4) = distribute r right_budget tb3
        in (Some (Nd nid leaf a c l' r'), tb4))"

definition balance_tokens :: "bst option \<Rightarrow> TokenBalancer \<Rightarrow> bst option \<times> TokenBalancer" where
  "balance_tokens tree_root tb = distribute tree_root (total_budget tb) (invalidate_cache tb)"

text \<open>The dictionary \<open>{k: v.allocated}\<close> that the balancing operations return.\<close>

definition allocation_map :: "TokenBalancer \<Rightarrow> (string \<rightharpoonup> int)" where
  "allocation_map tb = map_option allocated \<circ> leaf_allocations tb"




definition record_consumption :: "string \<Rightarrow> int \<Rightarrow> TokenBalancer \<Rightarrow> TokenBalancer" where
  "record_consumption nid tokens tb =
     (case leaf_allocations tb nid of
        Some r \<Rightarrow> tb\<lparr>leaf_allocations :=
                    (leaf_allocations tb)(nid \<mapsto> r\<lparr>consumed := consumed r + tokens\<rparr>)\<rparr>
      | None \<Rightarrow> tb)"

fun get_subtree_budget :: "bst option \<Rightarrow> TokenBalancer \<Rightarrow> int" where
  "get_subtree_budget None tb = 0"
| "get_subtree_budget (Some (Nd nid leaf a c l r)) tb =
     (if leaf then get_allocation nid tb
      else get_subtree_budget l tb + get_subtree_budget r tb)"

fun clear_subtree_allocations :: "bst option \<Rightarrow> TokenBalancer \<Rightarrow> TokenBalancer" where
  "clear_subtree_allocations None tb = tb"
| "clear_subtree_allocations (Some (Nd nid leaf a c l r)) tb =
     (let tb1 = (if leaf \<and> leaf_allocations tb nid \<noteq> None
                 then tb\<lparr>leaf_allocations := (leaf_allocations tb)(nid := None)\<rparr>
                 else tb);
          tb2 = clear_subtree_allocations l tb1
      in clear_subtree_allocations r tb2)"

text \<open>
  \<open>rebalance_partial\<close> returns the empty dictionary for \<open>None\<close> and otherwise the
  dictionary of all allocations; the model returns the node and the balancer, from which
  \<open>allocation_map\<close> reads the dictionary.
\<close>

definition rebalance_partial :: "bst option \<Rightarrow> TokenBalancer \<Rightarrow> bst option \<times> TokenBalancer" where
  "rebalance_partial subtree_root tb =
     (case subtree_root of
        None \<Rightarrow> (None, tb)
      | Some n \<Rightarrow>
          let subtree_budget = get_subtree_budget subtree_root tb;
              tb1 = clear_subtree_allocations subtree_root tb
          in distribute subtree_root subtree_budget tb1)"

fun recalculate_all_weights :: "bst option \<Rightarrow> TokenBalancer \<Rightarrow> TokenBalancer" where
  "recalculate_all_weights None tb = tb"
| "recalculate_all_weights (Some (Nd nid leaf a c l r)) tb =
     (let tb1 =
            (case leaf_allocations tb nid of
               None \<Rightarrow> tb
             | Some record \<Rightarrow>
                 let (weight, tb') = get_node_weight nid tb
                 in if utilization record > 8 / 10 then
                      tb'\<lparr>node_weights := (node_weights tb')(nid \<mapsto>
                        weight\<lparr>historical_usage := historical_usage weight * (11 / 10)\<rparr>)\<rparr>
                    else if utilization record < 2 / 10 then
                      tb'\<lparr>node_weights := (node_weights tb')(nid \<mapsto>
                        weight\<lparr>historical_usage := historical_usage weight * (9 / 10)\<rparr>)\<rparr>
                    else tb');
          tb2 = recalculate_all_weights l tb1
      in recalculate_all_weights r tb2)"

definition rebalance_full :: "bst option \<Rightarrow> TokenBalancer \<Rightarrow> bst option \<times> TokenBalancer" where
  "rebalance_full tree_root tb =
     (let tb1 = invalidate_cache tb;
          tb2 = tb1\<lparr>leaf_allocations := Map.empty\<rparr>;
          tb3 = recalculate_all_weights tree_root tb2
      in distribute tree_root (total_budget tb3) tb3)"

text \<open>
  The leaves that a distribution pass reaches, and the shape of tree the data model
  describes: a leaf has no children, an internal node has both, and no two leaves share
  an id.
\<close>

fun leaf_ids :: "bst option \<Rightarrow> string list" where
  "leaf_ids None = []"
| "leaf_ids (Some (Nd nid leaf a c l r)) = (if leaf then [nid] else leaf_ids l @ leaf_ids r)"

fun two_children :: "bst option \<Rightarrow> bool" where
  "two_children None = False"
| "two_children (Some (Nd nid leaf a c l r)) =
     (if leaf then l = None \<and> r = None else two_children l \<and> two_children r)"

definition well_formed :: "bst \<Rightarrow> bool" where
  "well_formed t = (two_children (Some t) \<and> distinct (leaf_ids (Some t)))"

definition sum_allocated :: "string list \<Rightarrow> TokenBalancer \<Rightarrow> int" where
  "sum_allocated ids tb = (\<Sum>k\<leftarrow>ids. get_allocation k tb)"

text \<open>
  The documented tree: the fifteen nodes that the \<open>create_node\<close> factories of
  tree/M000 \<dots> tree/M222 build, each with the \<open>token_budget\<close> of its configuration,
  before the first distribution.
\<close>

definition leaf_node :: "string \<Rightarrow> int \<Rightarrow> bst" where
  "leaf_node nid budget = Nd nid True budget 0 None None"

definition internal_node :: "string \<Rightarrow> int \<Rightarrow> bst \<Rightarrow> bst \<Rightarrow> bst" where
  "internal_node nid budget l r = Nd nid False budget 0 (Some l) (Some r)"









text \<open>
  A tree with three leaves (\<open>A\<close> and \<open>B\<close> under the internal node \<open>L\<close>, and \<open>C\<close>), and
  its balancer after a first distribution of 90 tokens in which leaf \<open>C\<close> has then
  consumed 7 tokens.
\<close>

definition trio_left :: bst where
  "trio_left = internal_node ''L'' 0 (leaf_node ''A'' 0) (leaf_node ''B'' 0)"

definition trio_tree :: bst where
  "trio_tree = internal_node ''R'' 90 trio_left (leaf_node ''C'' 0)"

definition running_balancer :: TokenBalancer where
  "running_balancer =
     record_consumption ''C'' 7
       (snd (balance_tokens (Some trio_tree) (new_TokenBalancer 90)))"

text \<open>
  Two small inputs used below: a root with two leaves, and a balancer in which both
  leaves have \<open>historical_usage = 0\<close>, so that both subtree weights are 0.
\<close>

definition pair_tree :: bst where
  "pair_tree = internal_node ''R'' 100 (leaf_node ''A'' 0) (leaf_node ''B'' 0)"


text \<open>
  A balancer after a first distribution of 100 tokens over \<open>pair_tree\<close> in which leaf
  \<open>A\<close> has then consumed 45 of its 50 tokens (utilization 0.9) and leaf \<open>B\<close> 5 of its 50
  (utilization 0.1).
\<close>

definition busy_balancer :: TokenBalancer where
  "busy_balancer =
     record_consumption ''B'' 5
       (record_consumption ''A'' 45
          (snd (balance_tokens (Some pair_tree) (new_TokenBalancer 100))))"

section \<open>Properties of the token balancer\<close>

subsection \<open>Induction over optional nodes, and what each pass leaves alone\<close>

lemma bst_option_induct [case_names None Node]:
  assumes "P None"
    and "\<And>nid leaf a c l r. P l \<Longrightarrow> P r \<Longrightarrow> P (Some (Nd nid leaf a c l r))"
  shows "P t"
proof -
  have "P (Some x)" for x
  proof (induction x)
    case (Nd nid leaf a c l r)
    have "P l" using Nd.IH(1) assms(1) by (cases l) auto
    moreover have "P r" using Nd.IH(2) assms(1) by (cases r) auto
    ultimately show ?case by (rule assms(2))
  qed
  with assms(1) show ?thesis by (cases t) auto
qed

lemma calc_frame:
  "leaf_allocations (snd (calculate_weight t tb)) = leaf_allocations tb
   \<and> total_budget (snd (calculate_weight t tb)) = total_budget tb
   \<and> cache_valid (snd (calculate_weight t tb)) = cache_valid tb"
  by (induction t arbitrary: tb rule: bst_option_induct)
     (auto simp: split_beta Let_def get_node_weight_def split: option.splits)

lemma dist_frame:
  "k \<notin> set (leaf_ids t) \<Longrightarrow>
   leaf_allocations (snd (distribute t B tb)) k = leaf_allocations tb k"
  by (induction t arbitrary: B tb rule: bst_option_induct)
     (auto simp: split_beta Let_def calc_frame)

lemma dist_budget:
  "total_budget (snd (distribute t B tb)) = total_budget tb
   \<and> cache_valid (snd (distribute t B tb)) = cache_valid tb"
  by (induction t arbitrary: B tb rule: bst_option_induct)
     (auto simp: split_beta Let_def calc_frame)

lemma sum_allocated_cong:
  "(\<And>k. k \<in> set ids \<Longrightarrow> leaf_allocations tb k = leaf_allocations tb' k) \<Longrightarrow>
   sum_allocated ids tb = sum_allocated ids tb'"
  unfolding sum_allocated_def get_allocation_def
  by (induction ids) auto

lemma sum_allocated_append:
  "sum_allocated (xs @ ys) tb = sum_allocated xs tb + sum_allocated ys tb"
  by (simp add: sum_allocated_def)

subsection \<open>Conservation of the budget\<close>

lemma split_budget_sum: "fst (split_budget B lw rw) + snd (split_budget B lw rw) = B"
  by (simp add: split_budget_def Let_def)


lemma dist_conservation:
  "two_children t \<Longrightarrow> distinct (leaf_ids t) \<Longrightarrow>
   sum_allocated (leaf_ids t) (snd (distribute t B tb)) = B"
proof (induction t arbitrary: B tb rule: bst_option_induct)
  case None
  then show ?case by simp
next
  case (Node nid leaf a c l r)
  show ?case
  proof (cases leaf)
    case True
    then show ?thesis by (simp add: sum_allocated_def get_allocation_def)
  next
    case False
    define p1 where "p1 = calculate_weight l tb"
    define p2 where "p2 = calculate_weight r (snd p1)"
    define sb where "sb = split_budget B (fst p1) (fst p2)"
    define d1 where "d1 = distribute l (fst sb) (snd p2)"
    define d2 where "d2 = distribute r (snd sb) (snd d1)"
    have res: "snd (distribute (Some (Nd nid leaf a c l r)) B tb) = snd d2"
      using False by (simp add: split_beta Let_def p1_def p2_def sb_def d1_def d2_def)
    from Node.prems False have tl: "two_children l" and tr: "two_children r"
      and dl: "distinct (leaf_ids l)" and dr: "distinct (leaf_ids r)"
      and disj: "set (leaf_ids l) \<inter> set (leaf_ids r) = {}" by auto
    have "sum_allocated (leaf_ids l) (snd d2) = sum_allocated (leaf_ids l) (snd d1)"
      unfolding d2_def using disj by (intro sum_allocated_cong dist_frame) auto
    also have "\<dots> = fst sb" unfolding d1_def by (rule Node.IH(1)[OF tl dl])
    finally have L: "sum_allocated (leaf_ids l) (snd d2) = fst sb" .
    have R: "sum_allocated (leaf_ids r) (snd d2) = snd sb"
      unfolding d2_def by (rule Node.IH(2)[OF tr dr])
    have ids: "leaf_ids (Some (Nd nid leaf a c l r)) = leaf_ids l @ leaf_ids r"
      using False by simp
    show ?thesis
      unfolding res ids sum_allocated_append L R sb_def by (rule split_budget_sum)
  qed
qed




subsection \<open>Full rebalance\<close>

lemma recalc_empty:
  "leaf_allocations tb = Map.empty \<Longrightarrow> recalculate_all_weights t tb = tb"
  by (induction t arbitrary: tb rule: bst_option_induct) (auto simp: Let_def)

lemma rebalance_full_no_feedback:
  "rebalance_full t tb =
     distribute t (total_budget tb) ((invalidate_cache tb)\<lparr>leaf_allocations := Map.empty\<rparr>)"
  by (simp add: rebalance_full_def Let_def recalc_empty invalidate_cache_def)

text \<open>
  Claim C2, evaluated on the code. \<open>rebalance_full\<close> empties \<open>leaf_allocations\<close> before
  it walks the tree, so \<open>_recalculate_all_weights\<close> finds no record and changes no weight
  (\<open>rebalance_full_no_feedback\<close>). On \<open>busy_balancer\<close> leaf \<open>A\<close> was used at 0.9 and leaf
  \<open>B\<close> at 0.1; after \<open>rebalance_full\<close> both still have \<open>historical_usage = 1\<close> (the claim
  says 1.1 and 0.9), and the allocations are 50 and 50 as before.
\<close>

theorem C2_rebalance_full_keeps_weights:
  "utilization (the (leaf_allocations busy_balancer ''A'')) = 9 / 10
   \<and> utilization (the (leaf_allocations busy_balancer ''B'')) = 1 / 10
   \<and> map_option historical_usage (node_weights busy_balancer ''A'') = Some 1
   \<and> map_option historical_usage (node_weights busy_balancer ''B'') = Some 1
   \<and> map_option historical_usage
        (node_weights (snd (rebalance_full (Some pair_tree) busy_balancer)) ''A'') = Some 1
   \<and> map_option historical_usage
        (node_weights (snd (rebalance_full (Some pair_tree) busy_balancer)) ''B'') = Some 1
   \<and> get_allocation ''A'' (snd (rebalance_full (Some pair_tree) busy_balancer)) = 50
   \<and> get_allocation ''B'' (snd (rebalance_full (Some pair_tree) busy_balancer)) = 50"
  by code_simp

subsection \<open>The split at total weight 0\<close>





subsection \<open>Partial rebalance\<close>

lemma clear_frame:
  "two_children t \<Longrightarrow> k \<notin> set (leaf_ids t) \<Longrightarrow>
   leaf_allocations (clear_subtree_allocations t tb) k = leaf_allocations tb k"
  by (induction t arbitrary: tb rule: bst_option_induct)
     (auto simp: Let_def split: if_splits)

lemma clear_inside:
  "two_children t \<Longrightarrow> k \<in> set (leaf_ids t) \<Longrightarrow>
   leaf_allocations (clear_subtree_allocations t tb) k = None"
proof (induction t arbitrary: tb rule: bst_option_induct)
  case None
  then show ?case by simp
next
  case (Node nid leaf a c l r)
  show ?case
  proof (cases leaf)
    case True
    with Node.prems show ?thesis by (auto simp: Let_def)
  next
    case False
    with Node.prems have tl: "two_children l" and tr: "two_children r" by auto
    show ?thesis
    proof (cases "k \<in> set (leaf_ids r)")
      case True
      with False Node.IH(2)[OF tr] show ?thesis by (simp add: Let_def)
    next
      case nr: False
      with False Node.prems have "k \<in> set (leaf_ids l)" by auto
      with False nr Node.IH(1)[OF tl] clear_frame[OF tr nr] show ?thesis
        by (simp add: Let_def)
    qed
  qed
qed

lemma subtree_budget_sum: "get_subtree_budget t tb = sum_allocated (leaf_ids t) tb"
  by (induction t rule: bst_option_induct) (auto simp: sum_allocated_def)

lemma dist_inside:
  "two_children t \<Longrightarrow> k \<in> set (leaf_ids t) \<Longrightarrow>
   \<exists>rec. leaf_allocations (snd (distribute t B tb)) k = Some rec \<and> consumed rec = 0"
proof (induction t arbitrary: B tb rule: bst_option_induct)
  case None
  then show ?case by simp
next
  case (Node nid leaf a c l r)
  show ?case
  proof (cases leaf)
    case True
    with Node.prems show ?thesis by auto
  next
    case False
    with Node.prems have tl: "two_children l" and tr: "two_children r" by auto
    define p1 where "p1 = calculate_weight l tb"
    define p2 where "p2 = calculate_weight r (snd p1)"
    define sb where "sb = split_budget B (fst p1) (fst p2)"
    define d1 where "d1 = distribute l (fst sb) (snd p2)"
    define d2 where "d2 = distribute r (snd sb) (snd d1)"
    have res: "snd (distribute (Some (Nd nid leaf a c l r)) B tb) = snd d2"
      using False by (simp add: split_beta Let_def p1_def p2_def sb_def d1_def d2_def)
    show ?thesis
    proof (cases "k \<in> set (leaf_ids r)")
      case True
      from Node.IH(2)[OF tr True] show ?thesis unfolding res d2_def .
    next
      case nr: False
      with False Node.prems have kl: "k \<in> set (leaf_ids l)" by auto
      have "leaf_allocations (snd d2) k = leaf_allocations (snd d1) k"
        unfolding d2_def by (rule dist_frame[OF nr])
      with Node.IH(1)[OF tl kl, of "fst sb" "snd p2"] show ?thesis
        unfolding res d1_def by simp
    qed
  qed
qed

text \<open>
  Claim C3. \<open>rebalance_partial\<close> on a well-formed subtree leaves the allocation record of
  every id that is not a leaf of the subtree as it was (allocated and consumed), takes as
  its budget the sum of the current allocations of the subtree's leaves (0 for a leaf
  without a record), gives every leaf of the subtree a fresh record, and these new
  allocations add up to that budget. On \<open>None\<close> it changes nothing.
\<close>

theorem C3_partial_rebalance_isolation:
  assumes "well_formed t"
  shows "(\<forall>k. k \<notin> set (leaf_ids (Some t)) \<longrightarrow>
            leaf_allocations (snd (rebalance_partial (Some t) tb)) k = leaf_allocations tb k)
    \<and> rebalance_partial (Some t) tb =
        distribute (Some t) (sum_allocated (leaf_ids (Some t)) tb)
          (clear_subtree_allocations (Some t) tb)
    \<and> (\<forall>k. k \<in> set (leaf_ids (Some t)) \<longrightarrow>
            leaf_allocations (clear_subtree_allocations (Some t) tb) k = None
            \<and> (\<exists>rec. leaf_allocations (snd (rebalance_partial (Some t) tb)) k = Some rec
                   \<and> consumed rec = 0))
    \<and> sum_allocated (leaf_ids (Some t)) (snd (rebalance_partial (Some t) tb)) =
        sum_allocated (leaf_ids (Some t)) tb
    \<and> rebalance_partial None tb = (None, tb)"
proof -
  from assms have tc: "two_children (Some t)" and di: "distinct (leaf_ids (Some t))"
    by (simp_all add: well_formed_def)
  have eq: "rebalance_partial (Some t) tb =
        distribute (Some t) (sum_allocated (leaf_ids (Some t)) tb)
          (clear_subtree_allocations (Some t) tb)"
    by (simp add: rebalance_partial_def Let_def subtree_budget_sum)
  have 1: "leaf_allocations (snd (rebalance_partial (Some t) tb)) k = leaf_allocations tb k"
    if "k \<notin> set (leaf_ids (Some t))" for k
    unfolding eq using dist_frame[OF that] clear_frame[OF tc that] by simp
  have 3: "leaf_allocations (clear_subtree_allocations (Some t) tb) k = None
            \<and> (\<exists>rec. leaf_allocations (snd (rebalance_partial (Some t) tb)) k = Some rec
                   \<and> consumed rec = 0)"
    if "k \<in> set (leaf_ids (Some t))" for k
    unfolding eq using clear_inside[OF tc that] dist_inside[OF tc that] by simp
  have 4: "sum_allocated (leaf_ids (Some t)) (snd (rebalance_partial (Some t) tb)) =
        sum_allocated (leaf_ids (Some t)) tb"
    unfolding eq by (rule dist_conservation[OF tc di])
  have 5: "rebalance_partial None tb = (None, tb)"
    by (simp add: rebalance_partial_def)
  from 1 eq 3 4 5 show ?thesis by blast
qed

theorem C3_partial_rebalance_isolation_witness:
  "well_formed trio_left
   \<and> ''C'' \<notin> set (leaf_ids (Some trio_left))
   \<and> ''A'' \<in> set (leaf_ids (Some trio_left))
   \<and> leaf_allocations (snd (rebalance_partial (Some trio_left) running_balancer)) ''C''
       = leaf_allocations running_balancer ''C''
   \<and> map_option consumed (leaf_allocations running_balancer ''C'') = Some 7
   \<and> leaf_allocations (clear_subtree_allocations (Some trio_left) running_balancer) ''A''
       = None
   \<and> (\<exists>rec. leaf_allocations (snd (rebalance_partial (Some trio_left) running_balancer))
               ''A'' = Some rec \<and> consumed rec = 0)
   \<and> sum_allocated (leaf_ids (Some trio_left))
        (snd (rebalance_partial (Some trio_left) running_balancer))
       = sum_allocated (leaf_ids (Some trio_left)) running_balancer"
proof -
  have h: "well_formed trio_left"
    by (simp add: well_formed_def trio_left_def internal_node_def leaf_node_def)
  have out: "''C'' \<notin> set (leaf_ids (Some trio_left))"
    and ins: "''A'' \<in> set (leaf_ids (Some trio_left))"
    by (simp_all add: trio_left_def internal_node_def leaf_node_def)
  have c: "map_option consumed (leaf_allocations running_balancer ''C'') = Some 7"
    by code_simp
  note inst = C3_partial_rebalance_isolation[OF h, of running_balancer]
  from inst out have 1:
    "leaf_allocations (snd (rebalance_partial (Some trio_left) running_balancer)) ''C''
       = leaf_allocations running_balancer ''C''"
    by blast
  from inst ins have 2:
    "leaf_allocations (clear_subtree_allocations (Some trio_left) running_balancer) ''A''
       = None
     \<and> (\<exists>rec. leaf_allocations (snd (rebalance_partial (Some trio_left) running_balancer))
               ''A'' = Some rec \<and> consumed rec = 0)"
    by blast
  from inst have 3: "sum_allocated (leaf_ids (Some trio_left))
        (snd (rebalance_partial (Some trio_left) running_balancer))
       = sum_allocated (leaf_ids (Some trio_left)) running_balancer"
    by blast
  from h out ins c 1 2 3 show ?thesis by blast
qed

end
